theory Spec2Isabelle
  imports Complex_Main "HOL-Library.AList"
begin

section \<open>Python values used by the runner\<close>

text \<open>
  Python's unbounded integers are \<open>int\<close>. Python's floats (clock readings, latencies in
  milliseconds, rates) are modelled as exact rationals: rounding of the binary
  representation is not modelled. Strings are \<open>string\<close>; \<open>str.upper\<close> and slicing are
  modelled on ASCII text, where a character is one byte.
\<close>

subsection \<open>Exceptions\<close>

text \<open>
  The exceptions that the modelled code raises or catches. \<open>RequestError\<close> is
  \<open>httpx.RequestError\<close> (every transport-level failure: connect, timeout, protocol);
  \<open>TimeoutExpired\<close> is \<open>subprocess.TimeoutExpired\<close>; \<open>OtherException\<close> stands for any
  other subclass of \<open>Exception\<close>. \<open>CancelledError\<close> is \<open>asyncio.CancelledError\<close>, which
  derives from \<open>BaseException\<close> and not from \<open>Exception\<close> (Python 3.8 and later), so that
  an \<open>except Exception\<close> clause does not catch it.
\<close>

datatype exn =
    ValueError string
  | KeyError string
  | RequestError string
  | TimeoutExpired
  | OtherException string
  | CancelledError

fun is_Exception :: "exn \<Rightarrow> bool" where
  "is_Exception CancelledError = False"
| "is_Exception _ = True"

text \<open>\<open>str(e)\<close>: the message; a \<open>KeyError\<close> prints the repr of its key.\<close>

fun exn_str :: "exn \<Rightarrow> string" where
  "exn_str (ValueError msg) = msg"
| "exn_str (KeyError k) = [CHR 39] @ k @ [CHR 39]"
| "exn_str (RequestError msg) = msg"
| "exn_str TimeoutExpired = ''Command timed out''"
| "exn_str (OtherException msg) = msg"
| "exn_str CancelledError = ''''"

subsection \<open>Strings and numbers\<close>

text \<open>\<open>str.upper\<close> on ASCII text: the 26 lower-case letters change, nothing else does.\<close>

definition upper_char :: "char \<Rightarrow> char" where
  "upper_char c =
     (case map_of (zip ''abcdefghijklmnopqrstuvwxyz'' ''ABCDEFGHIJKLMNOPQRSTUVWXYZ'') c of
        None \<Rightarrow> c | Some u \<Rightarrow> u)"

definition upper :: "string \<Rightarrow> string" where
  "upper s = map upper_char s"

definition digit_char :: "nat \<Rightarrow> char" where
  "digit_char d = ''0123456789'' ! d"

fun str_of_nat :: "nat \<Rightarrow> string" where
  "str_of_nat n =
     (if n < 10 then [digit_char n] else str_of_nat (n div 10) @ [digit_char (n mod 10)])"

declare str_of_nat.simps [simp del]

definition str_of_int :: "int \<Rightarrow> string" where
  "str_of_int i = (if i < 0 then CHR ''-'' # str_of_nat (nat (- i)) else str_of_nat (nat i))"

text \<open>\<open>d[k] = d.get(k, 0) + 1\<close> on a dictionary kept in insertion order.\<close>

definition dict_incr :: "(int \<times> int) list \<Rightarrow> int \<Rightarrow> (int \<times> int) list" where
  "dict_incr d k = AList.update k ((case map_of d k of None \<Rightarrow> 0 | Some c \<Rightarrow> c) + 1) d"

text \<open>\<open>int(x)\<close> on a float truncates towards zero.\<close>

definition py_int :: "rat \<Rightarrow> int" where
  "py_int x = (if 0 \<le> x then \<lfloor>x\<rfloor> else \<lceil>x\<rceil>)"

text \<open>
  \<open>xs[i]\<close>: an index from 0 up to the length reads from the front, one from
  \<open>-len(xs)\<close> up to \<open>-1\<close> from the back, any other raises \<open>IndexError\<close>.
\<close>

definition py_index :: "'a list \<Rightarrow> int \<Rightarrow> exn + 'a" where
  "py_index xs i =
     (if 0 \<le> i \<and> i < int (length xs) then Inr (xs ! nat i)
      else if - int (length xs) \<le> i \<and> i < 0 then Inr (xs ! nat (int (length xs) + i))
      else Inl (OtherException ''list index out of range''))"

text \<open>\<open>round(x, 2)\<close>: to the nearest multiple of 1/100, a tie going to the even one.\<close>

definition round_half_even :: "rat \<Rightarrow> int" where
  "round_half_even x =
     (let f = \<lfloor>x\<rfloor>; d = x - of_int f
      in if d < 1 / 2 then f else if 1 / 2 < d then f + 1
         else if even f then f else f + 1)"

definition py_round2 :: "rat \<Rightarrow> rat" where
  "py_round2 x = of_int (round_half_even (x * 100)) / 100"

text \<open>
  \<open>min\<close>, \<open>max\<close> and \<open>statistics.mean\<close>. On an empty list they raise;
  \<open>generate_report\<close>, their only caller, returns before it reaches them when the list
  is empty, so the value given here for the empty list is never used.
\<close>

fun py_min :: "rat list \<Rightarrow> rat" where
  "py_min [] = 0"
| "py_min (x # xs) = fold min xs x"

fun py_max :: "rat list \<Rightarrow> rat" where
  "py_max [] = 0"
| "py_max (x # xs) = fold max xs x"

definition mean :: "rat list \<Rightarrow> rat" where
  "mean xs = sum_list xs / of_nat (length xs)"


section \<open>The load generator (load\_runner.py)\<close>

subsection \<open>LoadTestConfig and TestMetrics\<close>

record load_test_config =
  target_url :: string
  "method" :: string
  headers :: "(string \<times> string) list"
  body :: string
  auth_token :: string
  concurrent_users :: int
  duration :: int
  max_rps :: int
  timeout :: int

text \<open>The dataclass constructor followed by \<open>__post_init__\<close>.\<close>

definition LoadTestConfig ::
  "string \<Rightarrow> string \<Rightarrow> (string \<times> string) list option \<Rightarrow> string \<Rightarrow> string \<Rightarrow>
   int \<Rightarrow> int \<Rightarrow> int \<Rightarrow> int \<Rightarrow> load_test_config" where
  "LoadTestConfig url meth hdrs bdy tok users dur rps tmo =
     (let h0 = (case hdrs of None \<Rightarrow> [] | Some h \<Rightarrow> h);
          h1 = (if tok \<noteq> '''' then AList.update ''Authorization'' (''Bearer '' @ tok) h0 else h0)
      in \<lparr>target_url = url, method = meth, headers = h1, body = bdy, auth_token = tok,
          concurrent_users = users, duration = dur, max_rps = rps, timeout = tmo\<rparr>)"

record test_metrics =
  total_requests :: int
  successful_requests :: int
  failed_requests :: int
  response_times :: "rat list"
  status_codes :: "(int \<times> int) list"
  errors :: "string list"
  start_time :: "rat option"
  end_time :: "rat option"

definition TestMetrics :: test_metrics where
  "TestMetrics =
     \<lparr>total_requests = 0, successful_requests = 0, failed_requests = 0,
      response_times = [], status_codes = [], errors = [],
      start_time = None, end_time = None\<rparr>"

subsection \<open>LoadRunner\<close>

text \<open>
  The runner's fields. The HTTP client is not state of the model: what the network
  answers is an input of each request (see \<open>make_request\<close>).
\<close>

record load_runner =
  config :: load_test_config
  metrics :: test_metrics
  running :: bool
  request_interval :: rat
  last_request_time :: rat

definition LoadRunner :: "load_test_config \<Rightarrow> load_runner" where
  "LoadRunner cfg =
     \<lparr>config = cfg, metrics = TestMetrics, running = False,
      request_interval = (if max_rps cfg > 0 then 1 / of_int (max_rps cfg) else 1 / 10),
      last_request_time = 0\<rparr>"

subsection \<open>make\_request\<close>

text \<open>
  The call that \<open>make_request\<close> issues on the client: the verb, the URL, the headers and,
  for the verbs that carry one, the body.
\<close>

datatype http_verb = GET | POST | PUT | DELETE | PATCH

datatype http_call = HttpCall http_verb string "(string \<times> string) list" "string option"

text \<open>The \<open>if\<close>/\<open>elif\<close> chain on \<open>self.config.method.upper()\<close>, in the source's order.\<close>

definition dispatch :: "load_test_config \<Rightarrow> exn + http_call" where
  "dispatch cfg =
     (let m = upper (method cfg)
      in if m = ''GET'' then Inr (HttpCall GET (target_url cfg) (headers cfg) None)
         else if m = ''POST'' then Inr (HttpCall POST (target_url cfg) (headers cfg) (Some (body cfg)))
         else if m = ''PUT'' then Inr (HttpCall PUT (target_url cfg) (headers cfg) (Some (body cfg)))
         else if m = ''DELETE'' then Inr (HttpCall DELETE (target_url cfg) (headers cfg) None)
         else if m = ''PATCH'' then Inr (HttpCall PATCH (target_url cfg) (headers cfg) (Some (body cfg)))
         else Inl (ValueError (''Unsupported HTTP method: '' @ method cfg)))"

text \<open>
  What awaiting the client call gives: a response (status code and body text) or an
  exception raised by the client.
\<close>

datatype reply = Response int string | Raises exn

text \<open>
  The four readings of \<open>time.time()\<close> in one call of \<open>make_request\<close>: at entry, for the
  rate limiter, when the call has returned or failed, and for the rate-limiter stamp.
\<close>

record request_clock =
  t_start :: rat
  t_current :: rat
  t_done :: rat
  t_stamp :: rat

text \<open>The dictionary that \<open>make_request\<close> returns, one constructor for each shape.\<close>

datatype request_result =
    HttpResult bool int rat string
  | ErrorResult string rat

text \<open>
  \<open>make_request\<close> takes the clock readings and the network (what the server answers to
  a call) and returns the delay that the rate limiter slept for, if any, what the call
  returned or raised, and the runner after the call. The \<open>except\<close> clause catches
  \<open>httpx.RequestError\<close> only: every other exception raised inside the \<open>try\<close>, the
  \<open>ValueError\<close> of the method dispatch included, leaves the runner as it was.
\<close>

definition make_request ::
  "request_clock \<Rightarrow> (http_call \<Rightarrow> reply) \<Rightarrow> load_runner \<Rightarrow>
   rat option \<times> (exn + request_result) \<times> load_runner" where
  "make_request clk net r =
     (let time_since_last = t_current clk - last_request_time r;
          slept = (if time_since_last < request_interval r
                   then Some (request_interval r - time_since_last) else None);
          m = metrics r
      in case dispatch (config r) of
           Inl e \<Rightarrow> (slept, Inl e, r)
         | Inr call \<Rightarrow>
            (case net call of
               Response status_code text \<Rightarrow>
                 (let response_time = (t_done clk - t_start clk) * 1000;
                      m1 = m\<lparr>total_requests := total_requests m + 1,
                             response_times := response_times m @ [response_time],
                             status_codes := dict_incr (status_codes m) status_code\<rparr>;
                      success = (200 \<le> status_code \<and> status_code < 300);
                      m2 = (if success
                            then m1\<lparr>successful_requests := successful_requests m1 + 1\<rparr>
                            else m1\<lparr>failed_requests := failed_requests m1 + 1,
                                    errors := errors m1 @
                                      [''HTTP '' @ str_of_int status_code @ '': '' @ take 100 text]\<rparr>)
                  in (slept,
                      Inr (HttpResult success status_code response_time
                             (if \<not> success then take 100 text else '''')),
                      r\<lparr>metrics := m2, last_request_time := t_stamp clk\<rparr>))
             | Raises (RequestError msg) \<Rightarrow>
                 (let response_time = (t_done clk - t_start clk) * 1000;
                      m1 = m\<lparr>total_requests := total_requests m + 1,
                             failed_requests := failed_requests m + 1,
                             response_times := response_times m @ [response_time],
                             errors := errors m @ [''Request error: '' @ msg]\<rparr>
                  in (slept, Inr (ErrorResult msg response_time), r\<lparr>metrics := m1\<rparr>))
             | Raises e \<Rightarrow> (slept, Inl e, r)))"

subsection \<open>run\_user\_simulation\<close>

text \<open>
  One turn of the loop \<open>while self.running and time.time() < end_time\<close> takes from its
  environment the clock reading of the loop condition, the clock readings of the request
  and the network.
\<close>

record iteration =
  loop_time :: rat
  clock :: request_clock
  net :: "http_call \<Rightarrow> reply"

text \<open>
  The state of one virtual user's task: still in its loop (with the \<open>end_time\<close> that it
  computed when it started), returned, or ended by an exception.
\<close>

datatype task = Looping rat | Returned | Raised exn

text \<open>
  One evaluation of the loop condition and, where it holds, one run of the loop body.
  The loop reads \<open>self.running\<close> and the clock on every turn; an exception of
  \<open>make_request\<close> ends the task. A task that has ended does nothing more.
\<close>

fun user_step :: "iteration \<Rightarrow> task \<Rightarrow> load_runner \<Rightarrow> task \<times> load_runner" where
  "user_step it (Looping end_t) r =
     (if running r \<and> loop_time it < end_t
      then (case make_request (clock it) (net it) r of
              (_, Inl e, r') \<Rightarrow> (Raised e, r')
            | (_, Inr _, r') \<Rightarrow> (Looping end_t, r'))
      else (Returned, r))"
| "user_step it Returned r = (Returned, r)"
| "user_step it (Raised e) r = (Raised e, r)"

text \<open>
  \<open>run_user_simulation\<close> for one user alone: \<open>t0\<close> is the clock reading from which
  \<open>end_time\<close> is computed, and the list holds what the environment supplies to the
  successive turns of the loop. The task is still \<open>Looping\<close> when the list ends before the
  loop does.
\<close>

fun user_loop :: "iteration list \<Rightarrow> task \<Rightarrow> load_runner \<Rightarrow> task \<times> load_runner" where
  "user_loop [] t r = (t, r)"
| "user_loop (it # its) t r = (case user_step it t r of (t', r') \<Rightarrow> user_loop its t' r')"

definition run_user_simulation :: "rat \<Rightarrow> iteration list \<Rightarrow> load_runner \<Rightarrow> task \<times> load_runner" where
  "run_user_simulation t0 its r = user_loop its (Looping (t0 + of_int (duration (config r)))) r"

subsection \<open>run\_test\<close>

text \<open>
  The virtual users are asyncio tasks on one event loop. Between its suspension points
  (the rate limiter's sleep and the client call) \<open>make_request\<close> only reads
  \<open>last_request_time\<close>; everything it writes, it writes after the client call without
  suspending again. A run of several users is therefore the sequence of their loop
  turns in the order in which they complete: an event names the user whose turn it is.
  An event for a user that does not exist, or whose task has ended, changes nothing.
\<close>

type_synonym event = "nat \<times> iteration"

fun run_event :: "event \<Rightarrow> task list \<times> load_runner \<Rightarrow> task list \<times> load_runner" where
  "run_event (uid, it) (tasks, r) =
     (if uid < length tasks
      then (case user_step it (tasks ! uid) r of (t', r') \<Rightarrow> (tasks[uid := t'], r'))
      else (tasks, r))"

definition run_events :: "event list \<Rightarrow> task list \<times> load_runner \<Rightarrow> task list \<times> load_runner" where
  "run_events evs s = fold run_event evs s"

fun task_done :: "task \<Rightarrow> bool" where
  "task_done (Looping _) = False"
| "task_done _ = True"

text \<open>
  The environment of one \<open>run_test\<close>: the two readings of \<open>datetime.utcnow()\<close>, the clock
  reading at which each user's task starts, the events that happen while \<open>run_test\<close>
  awaits \<open>asyncio.gather\<close>, and the exception that creating or awaiting the tasks
  raises, if any (\<open>CancelledError\<close> when the caller is cancelled while it waits).
\<close>

record run_env =
  utc_start :: rat
  utc_end :: rat
  task_start :: "nat \<Rightarrow> rat"
  schedule :: "event list"
  gather_raises :: "exn option"

text \<open>
  The three stages of \<open>run_test\<close> before it waits: the flag and the start time are set,
  one task per user is created (\<open>range\<close> of a negative number is empty), and each task
  computes its \<open>end_time\<close> when it starts. \<open>finally_run_test\<close> is the \<open>finally\<close> clause.
\<close>

definition start_run :: "run_env \<Rightarrow> load_runner \<Rightarrow> load_runner" where
  "start_run env r =
     r\<lparr>running := True, metrics := (metrics r)\<lparr>start_time := Some (utc_start env)\<rparr>\<rparr>"

definition create_tasks :: "run_env \<Rightarrow> load_runner \<Rightarrow> task list" where
  "create_tasks env r =
     map (\<lambda>user_id. Looping (task_start env user_id + of_int (duration (config r))))
         [0 ..< nat (concurrent_users (config r))]"

definition finally_run_test :: "run_env \<Rightarrow> load_runner \<Rightarrow> load_runner" where
  "finally_run_test env r =
     r\<lparr>running := False, metrics := (metrics r)\<lparr>end_time := Some (utc_end env)\<rparr>\<rparr>"

text \<open>
  \<open>run_test\<close> returns what the coroutine returns (\<open>Inr\<close> the metrics) or raises
  (\<open>Inl\<close>), together with the runner afterwards; the result is \<open>None\<close> while some task
  is still in its loop and nothing has interrupted the wait. \<open>gather\<close> is called with
  \<open>return_exceptions=True\<close>: the exception that ended a task is a value in the list
  that \<open>gather\<close> returns, and \<open>run_test\<close> drops that list. An \<open>Exception\<close> raised by
  creating or awaiting the tasks is appended to the error list; \<open>finally\<close> runs on
  every exit.
\<close>

definition run_test :: "run_env \<Rightarrow> load_runner \<Rightarrow> (exn + test_metrics) option \<times> load_runner" where
  "run_test env r =
     (let r1 = start_run env r;
          (tasks, r2) = run_events (schedule env) (create_tasks env r1, r1)
      in case gather_raises env of
           Some e \<Rightarrow>
             (if is_Exception e
              then (let r3 = finally_run_test env
                               (r2\<lparr>metrics := (metrics r2)\<lparr>errors := errors (metrics r2) @
                                                  [''Test error: '' @ exn_str e]\<rparr>\<rparr>)
                    in (Some (Inr (metrics r3)), r3))
              else (Some (Inl e), finally_run_test env r2))
         | None \<Rightarrow>
             (if list_all task_done tasks
              then (let r3 = finally_run_test env r2 in (Some (Inr (metrics r3)), r3))
              else (None, r2)))"

subsection \<open>generate\_report\<close>

record report =
  rp_target_url :: string
  rp_method :: string
  rp_concurrent_users :: int
  rp_duration :: int
  rp_max_rps :: int
  rp_start_time :: "rat option"
  rp_end_time :: "rat option"
  duration_seconds :: rat
  rp_total_requests :: int
  rp_successful_requests :: int
  rp_failed_requests :: int
  error_rate_percent :: rat
  throughput_rps :: rat
  average_ms :: rat
  minimum_ms :: rat
  maximum_ms :: rat
  p50_ms :: rat
  p95_ms :: rat
  p99_ms :: rat
  rp_status_codes :: "(int \<times> int) list"
  rp_errors :: "string list"
  errors_count :: nat

text \<open>The dictionary that \<open>generate_report\<close> returns: the error entry or the report.\<close>

datatype report_dict = ErrorDict string | ReportDict report

text \<open>
  The percentile index \<open>int(len(sorted_times) * p)\<close> is computed on rationals, with \<open>p\<close>
  the decimal fraction that the source writes (0.5, 0.95, 0.99).
\<close>

definition percentile :: "rat list \<Rightarrow> rat \<Rightarrow> exn + rat" where
  "percentile sorted_times p = py_index sorted_times (py_int (of_nat (length sorted_times) * p))"

definition generate_report :: "load_runner \<Rightarrow> exn + report_dict" where
  "generate_report r =
     (let m = metrics r; cfg = config r; rts = response_times m
      in if rts = [] then Inr (ErrorDict ''No metrics collected'')
         else
          (let avg_response_time = mean rts;
               min_response_time = py_min rts;
               max_response_time = py_max rts;
               sorted_times = sort rts
           in case percentile sorted_times (1 / 2) of Inl e \<Rightarrow> Inl e | Inr p50 \<Rightarrow>
             (case percentile sorted_times (95 / 100) of Inl e \<Rightarrow> Inl e | Inr p95 \<Rightarrow>
             (case percentile sorted_times (99 / 100) of Inl e \<Rightarrow> Inl e | Inr p99 \<Rightarrow>
               (let dur = (case (start_time m, end_time m) of
                             (Some s, Some e) \<Rightarrow> e - s | _ \<Rightarrow> 0);
                    throughput = (if dur > 0 then of_int (total_requests m) / dur else 0);
                    error_rate = (if total_requests m > 0
                                  then of_int (failed_requests m) / of_int (total_requests m) * 100
                                  else 0)
                in Inr (ReportDict
                    \<lparr>rp_target_url = target_url cfg, rp_method = method cfg,
                     rp_concurrent_users = concurrent_users cfg, rp_duration = duration cfg,
                     rp_max_rps = max_rps cfg,
                     rp_start_time = start_time m, rp_end_time = end_time m,
                     duration_seconds = dur,
                     rp_total_requests = total_requests m,
                     rp_successful_requests = successful_requests m,
                     rp_failed_requests = failed_requests m,
                     error_rate_percent = py_round2 error_rate,
                     throughput_rps = py_round2 throughput,
                     average_ms = py_round2 avg_response_time,
                     minimum_ms = py_round2 min_response_time,
                     maximum_ms = py_round2 max_response_time,
                     p50_ms = py_round2 p50, p95_ms = py_round2 p95, p99_ms = py_round2 p99,
                     rp_status_codes = status_codes m,
                     rp_errors = take 10 (errors m),
                     errors_count = length (errors m)\<rparr>))))))"


section \<open>The execution coordinator (test\_executor.py)\<close>

subsection \<open>The test configuration dictionary\<close>

text \<open>
  \<open>test_config\<close> is a dictionary; a key that is absent is \<open>None\<close> here, and
  \<open>test_config.get(key, default)\<close> is \<open>get_or\<close>.
\<close>

record test_config =
  tc_target_url :: "string option"
  tc_method :: "string option"
  tc_headers :: "(string \<times> string) list option"
  tc_body_template :: "string option"
  tc_auth_token :: "string option"
  tc_concurrent_users :: "int option"
  tc_duration :: "int option"
  tc_rps_limit :: "int option"
  tc_timeout :: "int option"
  tc_runner_type :: "string option"
  tc_load_profile_type :: "string option"
  tc_load_profile_config :: "(string \<times> int) list option"

definition get_or :: "'a option \<Rightarrow> 'a \<Rightarrow> 'a" where
  "get_or v d = (case v of None \<Rightarrow> d | Some x \<Rightarrow> x)"

subsection \<open>The external process\<close>

text \<open>
  The k6 process as the executor sees it: whether it is alive or has exited (with its
  return code), the signals that the executor has sent to it, and how it behaves: after
  how many seconds it exits by itself (\<open>None\<close>: never) and with which return code and
  output, and whether it exits within the grace period when it is sent \<open>SIGTERM\<close>.
  \<open>SIGKILL\<close> cannot be ignored. Sending a signal to the child does not fail.
\<close>

datatype signal = SIGTERM | SIGKILL

datatype proc_status = Alive | Exited int

record process =
  status :: proc_status
  signals :: "signal list"
  run_time :: "rat option"
  exit_code :: int
  stdout :: string
  stderr :: string
  heeds_sigterm :: bool

text \<open>\<open>Popen.communicate(timeout=t)\<close>: the process exits within \<open>t\<close> seconds or the call raises.\<close>

definition communicate :: "rat \<Rightarrow> process \<Rightarrow> exn + process" where
  "communicate t p =
     (case status p of
        Exited c \<Rightarrow> Inr p
      | Alive \<Rightarrow>
         (case run_time p of
            None \<Rightarrow> Inl TimeoutExpired
          | Some d \<Rightarrow> if d \<le> t then Inr (p\<lparr>status := Exited (exit_code p)\<rparr>)
                     else Inl TimeoutExpired))"

text \<open>\<open>Popen.terminate()\<close> and \<open>Popen.kill()\<close> send a signal unless the process has exited.\<close>

definition send_signal :: "signal \<Rightarrow> process \<Rightarrow> process" where
  "send_signal sig p =
     (case status p of Exited c \<Rightarrow> p | Alive \<Rightarrow> p\<lparr>signals := signals p @ [sig]\<rparr>)"

definition terminate :: "process \<Rightarrow> process" where
  "terminate p = send_signal SIGTERM p"

definition kill :: "process \<Rightarrow> process" where
  "kill p = send_signal SIGKILL p"

text \<open>
  How a process that is alive ends within \<open>t\<close> seconds, if it does (\<open>t = None\<close>: ever):
  killed, terminated, or by itself. The return code of a process ended by a signal is
  the negated signal number.
\<close>

definition exits_within :: "rat option \<Rightarrow> process \<Rightarrow> int option" where
  "exits_within t p =
     (if SIGKILL \<in> set (signals p) then Some (- 9)
      else if SIGTERM \<in> set (signals p) \<and> heeds_sigterm p then Some (- 15)
      else (case run_time p of
              None \<Rightarrow> None
            | Some d \<Rightarrow> (case t of None \<Rightarrow> Some (exit_code p)
                         | Some t' \<Rightarrow> if d \<le> t' then Some (exit_code p) else None)))"

text \<open>\<open>Popen.wait(timeout=t)\<close> returns or raises \<open>TimeoutExpired\<close>.\<close>

definition wait_timeout :: "rat \<Rightarrow> process \<Rightarrow> exn + process" where
  "wait_timeout t p =
     (case status p of
        Exited c \<Rightarrow> Inr p
      | Alive \<Rightarrow> (case exits_within (Some t) p of
                   None \<Rightarrow> Inl TimeoutExpired
                 | Some c \<Rightarrow> Inr (p\<lparr>status := Exited c\<rparr>)))"

text \<open>\<open>Popen.wait()\<close> without a timeout: \<open>None\<close> when the process never exits.\<close>

definition wait :: "process \<Rightarrow> process option" where
  "wait p =
     (case status p of
        Exited c \<Rightarrow> Some p
      | Alive \<Rightarrow> (case exits_within None p of
                   None \<Rightarrow> None
                 | Some c \<Rightarrow> Some (p\<lparr>status := Exited c\<rparr>)))"

subsection \<open>The operating system as the executor sees it\<close>

text \<open>
  A JSON document is kept as its text: parsing is part of the environment, which says
  for the summary file whether it is missing, malformed or a document, and for each
  line of the detail file whether it is blank, malformed or a document.
\<close>

datatype json_file = Missing | Malformed | Document string

datatype json_line = Blank | BadLine | DocLine string

record os_env =
  environ :: "(string \<times> string) list"
  files :: "string list"
  json_dumps :: "(string \<times> string) list \<Rightarrow> string"
  popen :: "string list \<Rightarrow> (string \<times> string) list \<Rightarrow> exn + process"
  summary_json :: json_file
  results_json :: "json_line list option"

text \<open>\<open>{**a, **b}\<close>: the entries of \<open>a\<close>, overwritten and extended by those of \<open>b\<close> in order.\<close>

definition dict_merge :: "(string \<times> string) list \<Rightarrow> (string \<times> string) list \<Rightarrow> (string \<times> string) list" where
  "dict_merge a b = fold (\<lambda>(k, v). AList.update k v) b a"

subsection \<open>Results\<close>

record k6_results =
  summary :: "string option"
  detailed_metrics :: "string list option"

text \<open>
  The result dictionaries of the executor and of the manager, one constructor for each
  set of keys:
  \<^item> \<open>PythonSuccess\<close>: \<open>success=True\<close>, \<open>execution_id\<close>, \<open>runner="python"\<close>, \<open>results\<close>, and in
    \<open>metrics\<close> the three counters and the response times;
  \<^item> \<open>K6Success\<close>: \<open>success=True\<close>, \<open>execution_id\<close>, \<open>runner="k6"\<close>, \<open>results\<close>, \<open>stdout\<close>,
    \<open>duration\<close>;
  \<^item> \<open>Failure\<close>: \<open>success=False\<close>, \<open>error\<close>, and \<open>execution_id\<close> and \<open>stderr\<close> where the
    dictionary has them;
  \<^item> \<open>AbortSuccess\<close>: \<open>success=True\<close>, \<open>message\<close>.
\<close>

datatype exec_result =
    PythonSuccess string report_dict int int int "rat list"
  | K6Success string k6_results string "int option"
  | Failure string "string option" "string option"
  | AbortSuccess string

fun success :: "exec_result \<Rightarrow> bool" where
  "success (Failure _ _ _) = False"
| "success _ = True"

subsection \<open>TestExecutor\<close>

text \<open>
  The executor's fields (its \<open>metrics\<close> dictionary is never read or written after the
  constructor and is left out). The execution id is a fresh UUID, an input here.
\<close>

record test_executor =
  ex_config :: test_config
  execution_id :: string
  is_running :: bool
  process :: "process option"

definition TestExecutor :: "test_config \<Rightarrow> string \<Rightarrow> test_executor" where
  "TestExecutor cfg uuid =
     \<lparr>ex_config = cfg, execution_id = uuid, is_running = False, process = None\<rparr>"

definition get_k6_script_path :: "string \<Rightarrow> string option" where
  "get_k6_script_path profile_type =
     map_of [(''ramp_up'', ''runner/k6-scripts/ramp-up-test.js''),
             (''steady_state'', ''runner/k6-scripts/basic-load-test.js''),
             (''spike'', ''runner/k6-scripts/spike-test.js''),
             (''soak'', ''runner/k6-scripts/soak-test.js'')] profile_type"

definition profile_get :: "(string \<times> int) list \<Rightarrow> string \<Rightarrow> int \<Rightarrow> string" where
  "profile_get pc k d = str_of_int (get_or (map_of pc k) d)"

definition prepare_k6_env :: "os_env \<Rightarrow> test_config \<Rightarrow> exn + (string \<times> string) list" where
  "prepare_k6_env os tc =
     (case tc_target_url tc of
        None \<Rightarrow> Inl (KeyError ''target_url'')
      | Some url \<Rightarrow>
         (let env_vars =
                [(''TARGET_URL'', url),
                 (''TARGET_METHOD'', get_or (tc_method tc) ''GET''),
                 (''TARGET_HEADERS'', json_dumps os (get_or (tc_headers tc) [])),
                 (''TARGET_BODY'', get_or (tc_body_template tc) []),
                 (''AUTH_TOKEN'', get_or (tc_auth_token tc) []),
                 (''TEST_DURATION'', str_of_int (get_or (tc_duration tc) 600) @ ''s''),
                 (''MAX_RPS'', str_of_int (get_or (tc_rps_limit tc) 1000))];
              pc = get_or (tc_load_profile_config tc) []
          in Inr (if tc_load_profile_type tc = Some ''ramp_up''
                  then dict_merge env_vars
                         [(''INITIAL_USERS'', profile_get pc ''initial_users'' 1),
                          (''TARGET_USERS'', profile_get pc ''target_users'' 100),
                          (''RAMP_DURATION'', profile_get pc ''ramp_duration'' 300),
                          (''HOLD_DURATION'', profile_get pc ''hold_duration'' 600)]
                  else if tc_load_profile_type tc = Some ''spike''
                  then dict_merge env_vars
                         [(''BASELINE_USERS'', profile_get pc ''baseline_users'' 10),
                          (''SPIKE_USERS'', profile_get pc ''spike_users'' 1000),
                          (''SPIKE_DURATION'', profile_get pc ''spike_duration'' 60),
                          (''BASELINE_DURATION'', profile_get pc ''baseline_duration'' 300)]
                  else if tc_load_profile_type tc = Some ''soak''
                  then dict_merge env_vars
                         [(''CONCURRENT_USERS'', profile_get pc ''concurrent_users'' 50),
                          (''SOAK_DURATION'', str_of_int (get_or (tc_duration tc) 86400))]
                  else env_vars)))"

definition parse_k6_results :: "os_env \<Rightarrow> k6_results" where
  "parse_k6_results os =
     \<lparr>summary = (case summary_json os of Document d \<Rightarrow> Some d | _ \<Rightarrow> None),
      detailed_metrics =
        (case results_json os of
           None \<Rightarrow> None
         | Some ls \<Rightarrow> if BadLine \<in> set ls then None
                      else Some (concat (map (\<lambda>l. case l of DocLine d \<Rightarrow> [d] | _ \<Rightarrow> []) ls)))\<rparr>"

text \<open>
  \<open>_run_k6_test\<close> returns what the coroutine returns or raises, and the executor
  afterwards; the result is \<open>None\<close> when the call does not return. The \<open>ValueError\<close>
  and \<open>KeyError\<close> exits come before the \<open>try\<close>; inside it, \<open>except Exception\<close> turns every
  exception of \<open>Popen\<close> into a failure result. When \<open>communicate\<close> times out, the
  handler calls \<open>kill()\<close> and then \<open>wait()\<close>.
\<close>

definition run_k6_test ::
  "os_env \<Rightarrow> test_config \<Rightarrow> test_executor \<Rightarrow> (exn + exec_result) option \<times> test_executor" where
  "run_k6_test os tc ex =
     (let profile_type = get_or (tc_load_profile_type tc) ''steady_state'';
          script_path = get_k6_script_path profile_type
      in case script_path of
           None \<Rightarrow> (Some (Inl (ValueError (''k6 script not found for profile: '' @ profile_type))), ex)
         | Some path \<Rightarrow>
            if path \<notin> set (files os)
            then (Some (Inl (ValueError (''k6 script not found for profile: '' @ profile_type))), ex)
            else
             (case prepare_k6_env os tc of
                Inl e \<Rightarrow> (Some (Inl e), ex)
              | Inr env_vars \<Rightarrow>
                 (let cmd = [''k6'', ''run'', ''--out'', ''json=results.json'',
                             ''--summary-export=summary.json'', path] @
                            (case tc_duration tc of
                               None \<Rightarrow> []
                             | Some d \<Rightarrow> if d \<noteq> 0 then [''--duration'', str_of_int d @ ''s''] else [])
                  in case popen os cmd (dict_merge (environ os) env_vars) of
                       Inl e \<Rightarrow>
                         (if is_Exception e
                          then (Some (Inr (Failure (''k6 execution failed: '' @ exn_str e)
                                             (Some (execution_id ex)) None)), ex)
                          else (Some (Inl e), ex))
                     | Inr p \<Rightarrow>
                        (case communicate (of_int (get_or (tc_timeout tc) 3600)) p of
                           Inr p' \<Rightarrow>
                             (case status p' of
                                Exited return_code \<Rightarrow>
                                  (if return_code = 0
                                   then (Some (Inr (K6Success (execution_id ex) (parse_k6_results os)
                                                      (stdout p') (tc_duration tc))),
                                         ex\<lparr>process := Some p'\<rparr>)
                                   else (Some (Inr (Failure (''k6 failed with return code '' @
                                                             str_of_int return_code)
                                                      (Some (execution_id ex)) (Some (stderr p')))),
                                         ex\<lparr>process := Some p'\<rparr>))
                              | Alive \<Rightarrow> (None, ex\<lparr>process := Some p'\<rparr>))
                         | Inl TimeoutExpired \<Rightarrow>
                             (case wait (kill p) of
                                None \<Rightarrow> (None, ex\<lparr>process := Some (kill p)\<rparr>)
                              | Some p' \<Rightarrow>
                                  (Some (Inr (Failure ''Test execution timed out''
                                                (Some (execution_id ex)) None)),
                                   ex\<lparr>process := Some p'\<rparr>))
                         | Inl e \<Rightarrow>
                             (if is_Exception e
                              then (Some (Inr (Failure (''k6 execution failed: '' @ exn_str e)
                                                 (Some (execution_id ex)) None)),
                                    ex\<lparr>process := Some p\<rparr>)
                              else (Some (Inl e), ex\<lparr>process := Some p\<rparr>))))))"

text \<open>
  \<open>_run_python_test\<close>: the runner is a local of the coroutine; the executor keeps no
  reference to it.
\<close>

definition run_python_test ::
  "run_env \<Rightarrow> test_config \<Rightarrow> test_executor \<Rightarrow> (exn + exec_result) option \<times> test_executor" where
  "run_python_test env tc ex =
     (case tc_target_url tc of
        None \<Rightarrow> (Some (Inl (KeyError ''target_url'')), ex)
      | Some url \<Rightarrow>
         (let python_config =
                LoadTestConfig url (get_or (tc_method tc) ''GET'') (Some (get_or (tc_headers tc) []))
                  (get_or (tc_body_template tc) []) (get_or (tc_auth_token tc) [])
                  (get_or (tc_concurrent_users tc) 10) (get_or (tc_duration tc) 60)
                  (get_or (tc_rps_limit tc) 100) (get_or (tc_timeout tc) 30)
          in case run_test env (LoadRunner python_config) of
               (None, runner) \<Rightarrow> (None, ex)
             | (Some (Inl e), runner) \<Rightarrow> (Some (Inl e), ex)
             | (Some (Inr tm), runner) \<Rightarrow>
                 (case generate_report runner of
                    Inl e \<Rightarrow> (Some (Inl e), ex)
                  | Inr rep \<Rightarrow>
                      (Some (Inr (PythonSuccess (execution_id ex) rep
                                    (total_requests tm) (successful_requests tm)
                                    (failed_requests tm) (response_times tm))), ex))))"

text \<open>The world of one execution: the environment of each of the two backends.\<close>

record world =
  py_env :: run_env
  os :: os_env

text \<open>
  \<open>execute_test\<close>: \<open>except Exception\<close> turns an exception into a failure result, and
  \<open>finally\<close> clears \<open>is_running\<close> on every exit. While the backend has not returned
  (\<open>None\<close>), \<open>is_running\<close> is still set.
\<close>

definition execute_test ::
  "world \<Rightarrow> test_config \<Rightarrow> test_executor \<Rightarrow> (exn + exec_result) option \<times> test_executor" where
  "execute_test w tc ex =
     (let ex1 = ex\<lparr>is_running := True\<rparr>;
          (res, ex2) =
            (if tc_runner_type tc = Some ''python'' \<or> get_or (tc_concurrent_users tc) 0 < 1000
             then run_python_test (py_env w) tc ex1
             else run_k6_test (os w) tc ex1)
      in case res of
           None \<Rightarrow> (None, ex2)
         | Some (Inr result) \<Rightarrow> (Some (Inr result), ex2\<lparr>is_running := False\<rparr>)
         | Some (Inl e) \<Rightarrow>
             (if is_Exception e
              then (Some (Inr (Failure (exn_str e) (Some (execution_id ex2)) None)),
                    ex2\<lparr>is_running := False\<rparr>)
              else (Some (Inl e), ex2\<lparr>is_running := False\<rparr>)))"

text \<open>\<open>TestExecutor.abort_test\<close>; the result is \<open>None\<close> when a \<open>wait()\<close> does not return.\<close>

definition abort_test :: "test_executor \<Rightarrow> exec_result option \<times> test_executor" where
  "abort_test ex =
     (if \<not> is_running ex then (Some (Failure ''No test is currently running'' None None), ex)
      else case process ex of
             Some p \<Rightarrow>
               (case wait_timeout 10 (terminate p) of
                  Inr p' \<Rightarrow> (Some (AbortSuccess ''Test aborted successfully''), ex\<lparr>process := Some p'\<rparr>)
                | Inl TimeoutExpired \<Rightarrow>
                    (case wait (kill (terminate p)) of
                       None \<Rightarrow> (None, ex\<lparr>process := Some (kill (terminate p))\<rparr>)
                     | Some p' \<Rightarrow> (Some (AbortSuccess ''Test forcefully terminated''),
                                   ex\<lparr>process := Some p'\<rparr>))
                | Inl e \<Rightarrow> (Some (Failure (''Failed to abort test: '' @ exn_str e) None None),
                            ex\<lparr>process := Some (terminate p)\<rparr>))
           | None \<Rightarrow> (Some (Failure ''No process to abort'' None None), ex))"


section \<open>The execution registry (TestExecutionManager)\<close>

text \<open>
  \<open>active_tests\<close> is a dictionary from execution id to executor, kept in insertion
  order; its \<open>len\<close> is the length of the list. The registry holds the executor object
  itself, so it shows the executor's state as the execution left it.
\<close>

record test_execution_manager =
  active_tests :: "(string \<times> test_executor) list"
  max_concurrent_tests :: int

definition TestExecutionManager :: test_execution_manager where
  "TestExecutionManager = \<lparr>active_tests = [], max_concurrent_tests = 5\<rparr>"

text \<open>\<open>if key in d: del d[key]\<close>.\<close>

definition cleanup :: "string \<Rightarrow> test_execution_manager \<Rightarrow> test_execution_manager" where
  "cleanup uuid mgr =
     (if uuid \<in> fst ` set (active_tests mgr)
      then mgr\<lparr>active_tests := AList.delete uuid (active_tests mgr)\<rparr> else mgr)"

text \<open>
  \<open>start_test\<close> takes the world of the execution and the UUID that the new executor
  draws. It returns what the coroutine returns or raises (\<open>None\<close>: it has not returned,
  the execution is still under way) and the registry at that point.
\<close>

definition start_test ::
  "world \<Rightarrow> string \<Rightarrow> test_config \<Rightarrow> test_execution_manager \<Rightarrow>
   (exn + exec_result) option \<times> test_execution_manager" where
  "start_test w uuid tc mgr =
     (if int (length (active_tests mgr)) \<ge> max_concurrent_tests mgr
      then (Some (Inr (Failure (''Maximum concurrent tests ('' @
                                 str_of_int (max_concurrent_tests mgr) @ '') reached'') None None)),
            mgr)
      else
       (let executor = TestExecutor tc uuid;
            mgr1 = mgr\<lparr>active_tests := AList.update uuid executor (active_tests mgr)\<rparr>
        in case execute_test w tc executor of
             (None, ex') \<Rightarrow>
               (None, mgr1\<lparr>active_tests := AList.update uuid ex' (active_tests mgr1)\<rparr>)
           | (Some (Inr results), ex') \<Rightarrow> (Some (Inr results), cleanup uuid mgr1)
           | (Some (Inl e), ex') \<Rightarrow>
               (if is_Exception e
                then (Some (Inr (Failure (''Test execution failed: '' @ exn_str e) None None)),
                      cleanup uuid mgr1)
                else (Some (Inl e),
                      mgr1\<lparr>active_tests := AList.update uuid ex' (active_tests mgr1)\<rparr>))))"

text \<open>\<open>TestExecutionManager.abort_test\<close> and \<open>get_active_tests\<close>.\<close>

definition manager_abort_test ::
  "string \<Rightarrow> test_execution_manager \<Rightarrow> exec_result option \<times> test_execution_manager" where
  "manager_abort_test uuid mgr =
     (case map_of (active_tests mgr) uuid of
        None \<Rightarrow> (Some (Failure ''Test execution not found'' None None), mgr)
      | Some executor \<Rightarrow>
         (case abort_test executor of
            (None, ex') \<Rightarrow> (None, mgr\<lparr>active_tests := AList.update uuid ex' (active_tests mgr)\<rparr>)
          | (Some result, ex') \<Rightarrow> (Some result, cleanup uuid mgr)))"

definition get_active_tests :: "test_execution_manager \<Rightarrow> (string \<times> string) list" where
  "get_active_tests mgr =
     map (\<lambda>(uuid, executor). (uuid, if is_running executor then ''running'' else ''completed''))
         (active_tests mgr)"


section \<open>Example inputs\<close>

text \<open>
  Concrete inputs at which the theorems below are evaluated. The configuration is the
  one of the specification's scenario: five users for two seconds at ten requests per
  second.
\<close>

definition example_config :: "string \<Rightarrow> load_test_config" where
  "example_config meth = LoadTestConfig ''http://x/health'' meth None [] [] 5 2 10 30"

text \<open>A loop turn that starts at time \<open>t\<close>, takes an eighth of a second and gets \<open>rep\<close>.\<close>

definition turn :: "rat \<Rightarrow> reply \<Rightarrow> iteration" where
  "turn t rep =
     \<lparr>loop_time = t,
      clock = \<lparr>t_start = t, t_current = t, t_done = t + 1 / 8, t_stamp = t + 1 / 8\<rparr>,
      net = (\<lambda>call. rep)\<rparr>"

text \<open>
  A run in which users 0 and 1 make three requests between them (answered 200, 500 and
  with a transport failure) and every user then finds the two seconds over.
\<close>

definition example_env :: run_env where
  "example_env =
     \<lparr>utc_start = 100, utc_end = 103, task_start = (\<lambda>user_id. 0),
      schedule = [(0, turn 0 (Response 200 ''ok'')),
                  (1, turn (1 / 4) (Response 500 ''boom'')),
                  (0, turn 1 (Raises (RequestError ''timed out''))),
                  (0, turn 2 (Response 200 ''ok'')),
                  (1, turn 2 (Response 200 ''ok'')),
                  (2, turn 2 (Response 200 ''ok'')),
                  (3, turn 2 (Response 200 ''ok'')),
                  (4, turn 2 (Response 200 ''ok''))],
      gather_raises = None\<rparr>"

text \<open>
  The same scenario as a \<open>test_config\<close> dictionary, an operating system in which the k6
  script exists and the process that \<open>Popen\<close> starts never exits by itself, and the
  world made of a runner environment and that operating system.
\<close>

definition example_test_config :: test_config where
  "example_test_config =
     \<lparr>tc_target_url = Some ''http://x/health'', tc_method = Some ''GET'', tc_headers = None,
      tc_body_template = None, tc_auth_token = None, tc_concurrent_users = Some 5,
      tc_duration = Some 2, tc_rps_limit = Some 10, tc_timeout = None, tc_runner_type = None,
      tc_load_profile_type = None, tc_load_profile_config = None\<rparr>"

definition hung_process :: process where
  "hung_process =
     \<lparr>status = Alive, signals = [], run_time = None, exit_code = 0,
      stdout = [], stderr = [], heeds_sigterm = True\<rparr>"

definition example_os :: os_env where
  "example_os =
     \<lparr>environ = [], files = [''runner/k6-scripts/basic-load-test.js''],
      json_dumps = (\<lambda>h. ''{}''), popen = (\<lambda>cmd env. Inr hung_process),
      summary_json = Missing, results_json = None\<rparr>"

definition example_world :: "run_env \<Rightarrow> world" where
  "example_world env = \<lparr>py_env = env, os = example_os\<rparr>"

text \<open>
  The registry after executions with the given ids have been started and none has
  finished: in each, the virtual users have started and no request has completed yet.
\<close>

definition started :: "string list \<Rightarrow> test_execution_manager" where
  "started ids =
     fold (\<lambda>uuid mgr. snd (start_test (example_world (example_env\<lparr>schedule := []\<rparr>)) uuid
                               example_test_config mgr))
          ids TestExecutionManager"


section \<open>The specification's percentile\<close>

text \<open>
  Following the specification's words, not the source: the percentile \<open>p\<close> of a latency
  sequence by nearest rank is \<open>sorted[floor(p * n)]\<close>.
\<close>

definition spec_nearest_rank :: "rat \<Rightarrow> rat list \<Rightarrow> rat" where
  "spec_nearest_rank p xs = sort xs ! nat \<lfloor>p * of_nat (length xs)\<rfloor>"


section \<open>Auxiliary facts\<close>

lemma floor_rat_numeral [simp]: "\<lfloor>(numeral a :: rat) / numeral b\<rfloor> = numeral a div numeral b"
  by (metis floor_divide_of_int_eq of_int_numeral)

lemmas example_defs =
  example_config_def turn_def example_env_def LoadTestConfig_def LoadRunner_def TestMetrics_def

lemmas runner_defs =
  make_request_def dispatch_def upper_def upper_char_def dict_incr_def str_of_int_def
  digit_char_def run_test_def run_events_def start_run_def create_tasks_def
  finally_run_test_def Let_def upt_conv_Cons

lemmas example_world_defs =
  example_test_config_def hung_process_def example_os_def example_world_def started_def

lemmas executor_defs =
  start_test_def execute_test_def run_python_test_def run_k6_test_def TestExecutor_def
  TestExecutionManager_def cleanup_def get_or_def generate_report_def abort_test_def
  manager_abort_test_def get_k6_script_path_def prepare_k6_env_def dict_merge_def
  communicate_def kill_def terminate_def send_signal_def wait_def wait_timeout_def
  exits_within_def update_conv' AList.update_def AList.delete_eq


section \<open>The request counters\<close>

lemma make_request_counts:
  assumes "total_requests (metrics r) = successful_requests (metrics r) + failed_requests (metrics r)"
  shows "total_requests (metrics (snd (snd (make_request clk nw r)))) =
         successful_requests (metrics (snd (snd (make_request clk nw r)))) +
         failed_requests (metrics (snd (snd (make_request clk nw r))))"
  using assms
  by (simp add: make_request_def Let_def split: sum.splits reply.splits exn.splits)

lemma user_step_counts:
  assumes "total_requests (metrics r) = successful_requests (metrics r) + failed_requests (metrics r)"
  shows "total_requests (metrics (snd (user_step it t r))) =
         successful_requests (metrics (snd (user_step it t r))) +
         failed_requests (metrics (snd (user_step it t r)))"
proof (cases t)
  case (Looping end_t)
  show ?thesis
  proof (cases "running r \<and> loop_time it < end_t")
    case True
    obtain d out r' where mr: "make_request (clock it) (net it) r = (d, out, r')"
      by (cases "make_request (clock it) (net it) r") auto
    from make_request_counts [OF assms, of "clock it" "net it"] mr
    have "total_requests (metrics r') = successful_requests (metrics r') + failed_requests (metrics r')"
      by simp
    with True Looping mr show ?thesis by (cases out) simp_all
  next
    case False
    with Looping assms show ?thesis by auto
  qed
qed (use assms in simp_all)

lemma run_event_counts:
  assumes "total_requests (metrics (snd s)) =
           successful_requests (metrics (snd s)) + failed_requests (metrics (snd s))"
  shows "total_requests (metrics (snd (run_event ev s))) =
         successful_requests (metrics (snd (run_event ev s))) +
         failed_requests (metrics (snd (run_event ev s)))"
proof -
  obtain uid it where ev: "ev = (uid, it)" by (cases ev)
  obtain tasks r where s: "s = (tasks, r)" by (cases s)
  show ?thesis
  proof (cases "uid < length tasks")
    case True
    obtain t' r' where us: "user_step it (tasks ! uid) r = (t', r')"
      by (cases "user_step it (tasks ! uid) r")
    from user_step_counts [of r it "tasks ! uid"] assms s us
    show ?thesis using True ev s by simp
  next
    case False
    with assms ev s show ?thesis by simp
  qed
qed

lemma run_events_counts:
  assumes "total_requests (metrics (snd s)) =
           successful_requests (metrics (snd s)) + failed_requests (metrics (snd s))"
  shows "total_requests (metrics (snd (run_events evs s))) =
         successful_requests (metrics (snd (run_events evs s))) +
         failed_requests (metrics (snd (run_events evs s)))"
  using assms
proof (induction evs arbitrary: s)
  case Nil
  then show ?case by (simp add: run_events_def)
next
  case (Cons ev evs)
  from Cons.IH [OF run_event_counts [OF Cons.prems, of ev]]
  show ?case by (simp add: run_events_def)
qed

lemma run_test_counts:
  assumes "total_requests (metrics r) = successful_requests (metrics r) + failed_requests (metrics r)"
  shows "total_requests (metrics (snd (run_test env r))) =
         successful_requests (metrics (snd (run_test env r))) +
         failed_requests (metrics (snd (run_test env r)))"
proof -
  let ?r1 = "start_run env r"
  obtain tasks r2 where ev: "run_events (schedule env) (create_tasks env ?r1, ?r1) = (tasks, r2)"
    by (cases "run_events (schedule env) (create_tasks env ?r1, ?r1)")
  have "total_requests (metrics (snd (create_tasks env ?r1, ?r1))) =
        successful_requests (metrics (snd (create_tasks env ?r1, ?r1))) +
        failed_requests (metrics (snd (create_tasks env ?r1, ?r1)))"
    using assms by (simp add: start_run_def)
  from run_events_counts [OF this, of "schedule env"] ev
  have r2: "total_requests (metrics r2) = successful_requests (metrics r2) + failed_requests (metrics r2)"
    by simp
  show ?thesis
    using r2 ev
    by (simp add: run_test_def Let_def finally_run_test_def split: option.splits)
qed

lemma run_test_returns_metrics:
  assumes "fst (run_test env r) = Some (Inr m)"
  shows "m = metrics (snd (run_test env r))"
  using assms
  by (auto simp: run_test_def Let_def split: prod.splits option.splits if_splits)

lemma generate_report_counters:
  assumes "generate_report r = Inr (ReportDict rep)"
  shows "rp_total_requests rep = total_requests (metrics r)"
    and "rp_successful_requests rep = successful_requests (metrics r)"
    and "rp_failed_requests rep = failed_requests (metrics r)"
  using assms
  by (auto simp: generate_report_def Let_def split: if_splits sum.splits)

text \<open>
  C1. Whatever sequence of request attempts is recorded, in whatever interleaving of
  the virtual users, the counters agree: \<open>make_request\<close> keeps
  \<open>total_requests = successful_requests + failed_requests\<close> from any runner in which it
  holds, it holds in the runner that the constructor builds, hence in the runner after
  any schedule of \<open>run_test\<close> (a finished run, or the events so far of one still under
  way), in the metrics that \<open>run_test\<close> returns, and in every report generated from them.
\<close>

theorem total_is_successful_plus_failed:
  "(total_requests (metrics r) = successful_requests (metrics r) + failed_requests (metrics r) \<longrightarrow>
      total_requests (metrics (snd (snd (make_request clk nw r)))) =
        successful_requests (metrics (snd (snd (make_request clk nw r)))) +
        failed_requests (metrics (snd (snd (make_request clk nw r))))) \<and>
   total_requests (metrics (snd (run_test env (LoadRunner cfg)))) =
     successful_requests (metrics (snd (run_test env (LoadRunner cfg)))) +
     failed_requests (metrics (snd (run_test env (LoadRunner cfg)))) \<and>
   (\<forall>m. fst (run_test env (LoadRunner cfg)) = Some (Inr m) \<longrightarrow>
      total_requests m = successful_requests m + failed_requests m) \<and>
   (\<forall>rep. generate_report (snd (run_test env (LoadRunner cfg))) = Inr (ReportDict rep) \<longrightarrow>
      rp_total_requests rep = rp_successful_requests rep + rp_failed_requests rep)"
proof -
  have init: "total_requests (metrics (LoadRunner cfg)) =
              successful_requests (metrics (LoadRunner cfg)) + failed_requests (metrics (LoadRunner cfg))"
    by (simp add: LoadRunner_def TestMetrics_def)
  note after = run_test_counts [OF init, of env]
  have ret: "total_requests m = successful_requests m + failed_requests m"
    if "fst (run_test env (LoadRunner cfg)) = Some (Inr m)" for m
    using run_test_returns_metrics [OF that] after by simp
  have rep: "rp_total_requests rep = rp_successful_requests rep + rp_failed_requests rep"
    if "generate_report (snd (run_test env (LoadRunner cfg))) = Inr (ReportDict rep)" for rep
    using generate_report_counters [OF that] after by simp
  show ?thesis
    using make_request_counts [of r clk nw] after ret rep by blast
qed

theorem total_is_successful_plus_failed_witness:
  "fst (run_test example_env (LoadRunner (example_config ''GET''))) \<noteq> None \<and>
   (\<exists>rep. generate_report (snd (run_test example_env (LoadRunner (example_config ''GET'')))) =
            Inr (ReportDict rep) \<and>
          rp_total_requests rep = 3 \<and> rp_successful_requests rep = 1 \<and> rp_failed_requests rep = 2 \<and>
          rp_total_requests rep = rp_successful_requests rep + rp_failed_requests rep) \<and>
   total_requests (metrics (snd (snd (make_request (clock (turn 0 (Response 404 ''no'')))
      (net (turn 0 (Response 404 ''no''))) (LoadRunner (example_config ''GET'')))))) = 1"
  using total_is_successful_plus_failed
    [of "LoadRunner (example_config ''GET'')" "clock (turn 0 (Response 404 ''no''))"
        "net (turn 0 (Response 404 ''no''))" example_env "example_config ''GET''"]
  by (simp add: example_defs runner_defs generate_report_def percentile_def py_index_def py_int_def
        py_round2_def round_half_even_def mean_def str_of_nat.simps)


section \<open>The rate-limiter stamp\<close>

lemma make_request_stamp_cases:
  "last_request_time (snd (snd (make_request clk nw r))) =
     (case dispatch (config r) of
        Inl e \<Rightarrow> last_request_time r
      | Inr call \<Rightarrow> (case nw call of
                       Response st txt \<Rightarrow> t_stamp clk
                     | Raises e \<Rightarrow> last_request_time r))"
  by (simp add: make_request_def Let_def split: sum.splits reply.splits exn.splits)

lemma make_request_interval [simp]:
  "request_interval (snd (snd (make_request clk nw r))) = request_interval r"
  by (simp add: make_request_def Let_def split: sum.splits reply.splits exn.splits)

lemma make_request_delay:
  "fst (make_request clk nw r) =
     (if t_current clk - last_request_time r < request_interval r
      then Some (request_interval r - (t_current clk - last_request_time r)) else None)"
  by (simp add: make_request_def Let_def split: sum.splits reply.splits exn.splits)

text \<open>
  C10. A call of \<open>make_request\<close> that ends in a transport failure leaves
  \<open>last_request_time\<close> as it was; the stamp changes only when a response was received,
  and then it is the clock reading taken after the response was recorded. The delay
  that the rate limiter imposes on the request after a failed attempt is therefore the
  delay computed from the runner before that attempt: it is measured from the stamp of
  the last request that was answered.
\<close>

theorem transport_failure_keeps_stamp:
  "(\<forall>call msg. dispatch (config r) = Inr call \<and> nw call = Raises (RequestError msg) \<longrightarrow>
      last_request_time (snd (snd (make_request clk nw r))) = last_request_time r \<and>
      fst (make_request clk' nw' (snd (snd (make_request clk nw r)))) =
        fst (make_request clk' nw' r)) \<and>
   (\<forall>call st txt. dispatch (config r) = Inr call \<and> nw call = Response st txt \<longrightarrow>
      last_request_time (snd (snd (make_request clk nw r))) = t_stamp clk) \<and>
   (last_request_time (snd (snd (make_request clk nw r))) \<noteq> last_request_time r \<longrightarrow>
      (\<exists>call st txt. dispatch (config r) = Inr call \<and> nw call = Response st txt))"
proof (intro conjI allI impI)
  fix call msg
  assume a: "dispatch (config r) = Inr call \<and> nw call = Raises (RequestError msg)"
  then show keep: "last_request_time (snd (snd (make_request clk nw r))) = last_request_time r"
    by (simp add: make_request_stamp_cases)
  show "fst (make_request clk' nw' (snd (snd (make_request clk nw r)))) =
        fst (make_request clk' nw' r)"
    by (simp add: make_request_delay keep)
next
  fix call st tx
  assume "dispatch (config r) = Inr call \<and> nw call = Response st tx"
  then show "last_request_time (snd (snd (make_request clk nw r))) = t_stamp clk"
    by (simp add: make_request_stamp_cases)
next
  assume "last_request_time (snd (snd (make_request clk nw r))) \<noteq> last_request_time r"
  then show "\<exists>call st txt. dispatch (config r) = Inr call \<and> nw call = Response st txt"
    by (auto simp: make_request_stamp_cases split: sum.splits reply.splits)
qed

theorem transport_failure_keeps_stamp_witness:
  "last_request_time (snd (snd (make_request (clock (turn 1 (Response 200 ''ok'')))
      (net (turn 1 (Response 200 ''ok''))) (LoadRunner (example_config ''GET''))))) = 9 / 8 \<and>
   last_request_time (snd (snd (make_request (clock (turn 2 (Raises (RequestError ''timed out''))))
      (net (turn 2 (Raises (RequestError ''timed out''))))
      (snd (snd (make_request (clock (turn 1 (Response 200 ''ok'')))
         (net (turn 1 (Response 200 ''ok''))) (LoadRunner (example_config ''GET'')))))))) = 9 / 8 \<and>
   last_request_time (snd (snd (make_request (clock (turn 1 (Response 200 ''ok'')))
      (net (turn 1 (Response 200 ''ok''))) (LoadRunner (example_config ''GET''))))) \<noteq>
     last_request_time (LoadRunner (example_config ''GET''))"
  using transport_failure_keeps_stamp
    [of "snd (snd (make_request (clock (turn 1 (Response 200 ''ok'')))
           (net (turn 1 (Response 200 ''ok''))) (LoadRunner (example_config ''GET''))))"
        "net (turn 2 (Raises (RequestError ''timed out'')))"
        "clock (turn 2 (Raises (RequestError ''timed out'')))"
        "clock (turn 3 (Response 200 ''ok''))" "net (turn 3 (Response 200 ''ok''))"]
    transport_failure_keeps_stamp
    [of "LoadRunner (example_config ''GET'')" "net (turn 1 (Response 200 ''ok''))"
        "clock (turn 1 (Response 200 ''ok''))"
        "clock (turn 3 (Response 200 ''ok''))" "net (turn 3 (Response 200 ''ok''))"]
  by (simp add: example_defs runner_defs)


section \<open>Outcome classification\<close>

lemma make_request_response:
  assumes "dispatch (config r) = Inr call" and "nw call = Response st body_text"
  shows "snd (make_request clk nw r) =
     (Inr (HttpResult (200 \<le> st \<and> st < 300) st ((t_done clk - t_start clk) * 1000)
            (if 200 \<le> st \<and> st < 300 then [] else take 100 body_text)),
      r\<lparr>metrics := (metrics r)
          \<lparr>total_requests := total_requests (metrics r) + 1,
           response_times := response_times (metrics r) @ [(t_done clk - t_start clk) * 1000],
           status_codes := dict_incr (status_codes (metrics r)) st,
           successful_requests :=
             (if 200 \<le> st \<and> st < 300 then successful_requests (metrics r) + 1
              else successful_requests (metrics r)),
           failed_requests :=
             (if 200 \<le> st \<and> st < 300 then failed_requests (metrics r)
              else failed_requests (metrics r) + 1),
           errors :=
             (if 200 \<le> st \<and> st < 300 then errors (metrics r)
              else errors (metrics r) @ [''HTTP '' @ str_of_int st @ '': '' @ take 100 body_text])\<rparr>,
         last_request_time := t_stamp clk\<rparr>)"
  using assms by (simp add: make_request_def Let_def)

lemma make_request_transport_failure:
  assumes "dispatch (config r) = Inr call" and "nw call = Raises (RequestError msg)"
  shows "snd (make_request clk nw r) =
     (Inr (ErrorResult msg ((t_done clk - t_start clk) * 1000)),
      r\<lparr>metrics := (metrics r)
          \<lparr>total_requests := total_requests (metrics r) + 1,
           failed_requests := failed_requests (metrics r) + 1,
           response_times := response_times (metrics r) @ [(t_done clk - t_start clk) * 1000],
           errors := errors (metrics r) @ [''Request error: '' @ msg]\<rparr>\<rparr>)"
  using assms by (simp add: make_request_def Let_def)

lemma map_of_dict_incr:
  "map_of (dict_incr d k) k = Some ((case map_of d k of None \<Rightarrow> 0 | Some c \<Rightarrow> c) + 1)"
  by (simp add: dict_incr_def update_conv')

lemma map_of_dict_incr_other:
  "k' \<noteq> k \<Longrightarrow> map_of (dict_incr d k) k' = map_of d k'"
  by (simp add: dict_incr_def update_conv')

text \<open>
  C9, as the claim states it, fails where it says that every failure's message is
  truncated: the message of a transport failure is stored whole. Here a failure whose
  text has 200 characters leaves an entry of 215 characters in the error list.
\<close>

theorem transport_failure_message_not_truncated:
  "errors (metrics (snd (snd (make_request (clock (turn 0 (Raises (RequestError (replicate 200 CHR ''x'')))))
      (net (turn 0 (Raises (RequestError (replicate 200 CHR ''x'')))))
      (LoadRunner (example_config ''GET'')))))) =
     [''Request error: '' @ replicate 200 CHR ''x''] \<and>
   length (hd (errors (metrics (snd (snd (make_request
      (clock (turn 0 (Raises (RequestError (replicate 200 CHR ''x'')))))
      (net (turn 0 (Raises (RequestError (replicate 200 CHR ''x'')))))
      (LoadRunner (example_config ''GET'')))))))) = 215"
  by (simp add: example_defs runner_defs)

text \<open>
  C9, amended. When a response is received, the attempt is a success if and only if
  \<open>200 \<le> status < 300\<close>: a success increments \<open>successful_requests\<close> and adds no error;
  any other status increments \<open>failed_requests\<close> and appends one message, which carries
  the response text cut to its first 100 characters. Either way the entry of the
  status in the status-code histogram goes up by one and no other entry changes. A
  transport failure increments \<open>failed_requests\<close>, appends one message that carries the
  exception's text in full, and leaves the histogram as it was.
\<close>

theorem outcome_classification:
  assumes "dispatch (config r) = Inr call"
  shows "(nw call = Response st body_text \<longrightarrow>
            (let (res, r') = snd (make_request clk nw r); m = metrics r; m' = metrics r'
             in res = Inr (HttpResult (200 \<le> st \<and> st < 300) st ((t_done clk - t_start clk) * 1000)
                             (if 200 \<le> st \<and> st < 300 then [] else take 100 body_text)) \<and>
                total_requests m' = total_requests m + 1 \<and>
                (200 \<le> st \<and> st < 300 \<longrightarrow>
                   successful_requests m' = successful_requests m + 1 \<and>
                   failed_requests m' = failed_requests m \<and> errors m' = errors m) \<and>
                (\<not> (200 \<le> st \<and> st < 300) \<longrightarrow>
                   successful_requests m' = successful_requests m \<and>
                   failed_requests m' = failed_requests m + 1 \<and>
                   errors m' = errors m @ [''HTTP '' @ str_of_int st @ '': '' @ take 100 body_text]) \<and>
                map_of (status_codes m') st =
                  Some ((case map_of (status_codes m) st of None \<Rightarrow> 0 | Some c \<Rightarrow> c) + 1) \<and>
                (\<forall>k. k \<noteq> st \<longrightarrow> map_of (status_codes m') k = map_of (status_codes m) k))) \<and>
         (nw call = Raises (RequestError msg) \<longrightarrow>
            (let (res, r') = snd (make_request clk nw r); m = metrics r; m' = metrics r'
             in res = Inr (ErrorResult msg ((t_done clk - t_start clk) * 1000)) \<and>
                total_requests m' = total_requests m + 1 \<and>
                successful_requests m' = successful_requests m \<and>
                failed_requests m' = failed_requests m + 1 \<and>
                errors m' = errors m @ [''Request error: '' @ msg] \<and>
                status_codes m' = status_codes m))"
proof (intro conjI impI)
  assume rep: "nw call = Response st body_text"
  show "let (res, r') = snd (make_request clk nw r); m = metrics r; m' = metrics r'
        in res = Inr (HttpResult (200 \<le> st \<and> st < 300) st ((t_done clk - t_start clk) * 1000)
                        (if 200 \<le> st \<and> st < 300 then [] else take 100 body_text)) \<and>
           total_requests m' = total_requests m + 1 \<and>
           (200 \<le> st \<and> st < 300 \<longrightarrow>
              successful_requests m' = successful_requests m + 1 \<and>
              failed_requests m' = failed_requests m \<and> errors m' = errors m) \<and>
           (\<not> (200 \<le> st \<and> st < 300) \<longrightarrow>
              successful_requests m' = successful_requests m \<and>
              failed_requests m' = failed_requests m + 1 \<and>
              errors m' = errors m @ [''HTTP '' @ str_of_int st @ '': '' @ take 100 body_text]) \<and>
           map_of (status_codes m') st =
             Some ((case map_of (status_codes m) st of None \<Rightarrow> 0 | Some c \<Rightarrow> c) + 1) \<and>
           (\<forall>k. k \<noteq> st \<longrightarrow> map_of (status_codes m') k = map_of (status_codes m) k)"
    using make_request_response [where r = r and call = call and nw = nw and st = st
        and body_text = body_text and clk = clk] assms rep
    by (simp add: map_of_dict_incr map_of_dict_incr_other)
next
  assume err: "nw call = Raises (RequestError msg)"
  show "let (res, r') = snd (make_request clk nw r); m = metrics r; m' = metrics r'
        in res = Inr (ErrorResult msg ((t_done clk - t_start clk) * 1000)) \<and>
           total_requests m' = total_requests m + 1 \<and>
           successful_requests m' = successful_requests m \<and>
           failed_requests m' = failed_requests m + 1 \<and>
           errors m' = errors m @ [''Request error: '' @ msg] \<and>
           status_codes m' = status_codes m"
    using make_request_transport_failure [where r = r and call = call and nw = nw and msg = msg
        and clk = clk] assms err
    by simp
qed

theorem outcome_classification_witness:
  "dispatch (config (LoadRunner (example_config ''post''))) =
     Inr (HttpCall POST ''http://x/health'' [] (Some [])) \<and>
   metrics (snd (snd (make_request (clock (turn 0 (Response 503 ''busy'')))
      (net (turn 0 (Response 503 ''busy''))) (LoadRunner (example_config ''post''))))) =
     TestMetrics\<lparr>total_requests := 1, failed_requests := 1, response_times := [125],
                 status_codes := [(503, 1)], errors := [''HTTP 503: busy'']\<rparr> \<and>
   metrics (snd (snd (make_request (clock (turn 0 (Raises (RequestError ''refused''))))
      (net (turn 0 (Raises (RequestError ''refused'')))) (LoadRunner (example_config ''post''))))) =
     TestMetrics\<lparr>total_requests := 1, failed_requests := 1, response_times := [125],
                 errors := [''Request error: refused'']\<rparr>"
proof -
  have d: "dispatch (config (LoadRunner (example_config ''post''))) =
           Inr (HttpCall POST ''http://x/health'' [] (Some []))"
    by (simp add: example_defs runner_defs)
  from outcome_classification [OF d, of "net (turn 0 (Response 503 ''busy''))" 503 "''busy''"
         "clock (turn 0 (Response 503 ''busy''))" "''refused''"]
       outcome_classification [OF d, of "net (turn 0 (Raises (RequestError ''refused'')))" 503 "''busy''"
         "clock (turn 0 (Raises (RequestError ''refused'')))" "''refused''"]
  show ?thesis
    by (simp add: example_defs runner_defs str_of_nat.simps)
qed


section \<open>Method dispatch\<close>

lemma upper_ascii_examples:
  "upper ''get'' = ''GET''" "upper ''Post'' = ''POST''" "upper ''head'' = ''HEAD''"
  by (simp_all add: upper_def upper_char_def)

text \<open>
  C7, evaluated where the code departs from the claim. \<open>HEAD\<close> and \<open>OPTIONS\<close> are in the
  set of methods that the input validation accepts, yet the \<open>if\<close>/\<open>elif\<close> chain of
  \<open>make_request\<close> has no branch for them: the call falls through to the \<open>else\<close> branch
  and raises \<open>ValueError\<close>. Nothing is recorded in the metrics. The rate limiter comes
  before the dispatch: where it imposes a delay (as at the clock reading 0 of this
  evaluation, a tenth of a second) the call has slept before it raises. The five verbs
  that have a branch are dispatched, in any letter case.
\<close>

theorem head_and_options_take_unsupported_branch:
  "dispatch (example_config ''HEAD'') = Inl (ValueError ''Unsupported HTTP method: HEAD'') \<and>
   dispatch (example_config ''OPTIONS'') = Inl (ValueError ''Unsupported HTTP method: OPTIONS'') \<and>
   make_request (clock (turn 0 (Response 200 ''ok''))) (net (turn 0 (Response 200 ''ok'')))
       (LoadRunner (example_config ''HEAD'')) =
     (Some (1 / 10), Inl (ValueError ''Unsupported HTTP method: HEAD''),
      LoadRunner (example_config ''HEAD'')) \<and>
   dispatch (example_config ''GET'') = Inr (HttpCall GET ''http://x/health'' [] None) \<and>
   dispatch (example_config ''post'') = Inr (HttpCall POST ''http://x/health'' [] (Some [])) \<and>
   dispatch (example_config ''Put'') = Inr (HttpCall PUT ''http://x/health'' [] (Some [])) \<and>
   dispatch (example_config ''DELETE'') = Inr (HttpCall DELETE ''http://x/health'' [] None) \<and>
   dispatch (example_config ''patch'') = Inr (HttpCall PATCH ''http://x/health'' [] (Some []))"
  by (simp add: example_defs runner_defs)


section \<open>The report's latency statistics\<close>

lemma round_half_even_mono:
  assumes "x \<le> y"
  shows "round_half_even x \<le> round_half_even y"
proof -
  have fl: "\<lfloor>x\<rfloor> \<le> \<lfloor>y\<rfloor>" using assms by (rule floor_mono)
  have lo: "\<lfloor>y\<rfloor> \<le> round_half_even y"
    by (simp add: round_half_even_def Let_def)
  have hi: "round_half_even x \<le> \<lfloor>x\<rfloor> + 1"
    by (simp add: round_half_even_def Let_def)
  show ?thesis
  proof (cases "\<lfloor>x\<rfloor> < \<lfloor>y\<rfloor>")
    case True
    with lo hi show ?thesis by linarith
  next
    case False
    with fl have eq: "\<lfloor>y\<rfloor> = \<lfloor>x\<rfloor>" by simp
    have "x - of_int \<lfloor>x\<rfloor> \<le> y - of_int \<lfloor>x\<rfloor>" using assms by simp
    then show ?thesis
      by (auto simp: round_half_even_def Let_def eq)
  qed
qed

lemma py_round2_mono: "x \<le> y \<Longrightarrow> py_round2 x \<le> py_round2 y"
  by (simp add: py_round2_def round_half_even_mono divide_right_mono)

lemma percentile_index:
  assumes "xs \<noteq> []" and "0 \<le> p" and "p < 1"
  shows "nat \<lfloor>of_nat (length xs) * p\<rfloor> < length xs"
    and "percentile xs p = Inr (xs ! nat \<lfloor>of_nat (length xs) * p\<rfloor>)"
proof -
  let ?n = "length xs"
  have n: "0 < ?n" using assms(1) by simp
  have nonneg: "0 \<le> (of_nat ?n :: rat) * p" using assms(2) by simp
  have "(of_nat ?n :: rat) * p < of_nat ?n * 1"
    using n assms(3) by (intro mult_strict_left_mono) simp_all
  then have "\<lfloor>(of_nat ?n :: rat) * p\<rfloor> < int ?n"
    by (simp add: floor_less_iff)
  moreover have "0 \<le> \<lfloor>(of_nat ?n :: rat) * p\<rfloor>" using nonneg by simp
  ultimately have rng: "0 \<le> \<lfloor>(of_nat ?n :: rat) * p\<rfloor> \<and> \<lfloor>(of_nat ?n :: rat) * p\<rfloor> < int ?n"
    by blast
  then show "nat \<lfloor>of_nat ?n * p\<rfloor> < ?n"
    by (simp add: nat_less_iff del: zero_le_floor)
  from rng nonneg show "percentile xs p = Inr (xs ! nat \<lfloor>of_nat ?n * p\<rfloor>)"
    by (simp add: percentile_def py_index_def py_int_def del: zero_le_floor)
qed

lemma percentile_rank_mono:
  assumes "0 \<le> p" and "p \<le> q"
  shows "nat \<lfloor>of_nat n * p\<rfloor> \<le> nat \<lfloor>(of_nat n :: rat) * q\<rfloor>"
proof -
  have "(of_nat n :: rat) * p \<le> of_nat n * q"
    using assms by (intro mult_left_mono) simp_all
  then show ?thesis by (intro nat_mono floor_mono)
qed

lemma py_min_Min:
  assumes "xs \<noteq> []"
  shows "py_min xs = Min (set xs)"
proof (cases xs)
  case Nil
  with assms show ?thesis by simp
next
  case (Cons a as)
  have "py_min (a # as) = Min (set (a # as))"
    unfolding Min.set_eq_fold by simp
  with Cons show ?thesis by simp
qed

lemma py_max_Max:
  assumes "xs \<noteq> []"
  shows "py_max xs = Max (set xs)"
proof (cases xs)
  case Nil
  with assms show ?thesis by simp
next
  case (Cons a as)
  have "py_max (a # as) = Max (set (a # as))"
    unfolding Max.set_eq_fold by simp
  with Cons show ?thesis by simp
qed

lemma sum_list_lower:
  "(\<And>x. x \<in> set xs \<Longrightarrow> a \<le> x) \<Longrightarrow> of_nat (length xs) * a \<le> sum_list (xs :: rat list)"
  by (induction xs) (auto simp: algebra_simps add_mono)

lemma sum_list_upper:
  "(\<And>x. x \<in> set xs \<Longrightarrow> x \<le> b) \<Longrightarrow> sum_list (xs :: rat list) \<le> of_nat (length xs) * b"
  by (induction xs) (auto simp: algebra_simps add_mono)

lemma mean_bounds:
  assumes "xs \<noteq> []"
  shows "py_min xs \<le> mean xs" and "mean xs \<le> py_max xs"
proof -
  have n: "(0 :: rat) < of_nat (length xs)" using assms by simp
  have "of_nat (length xs) * Min (set xs) \<le> sum_list xs"
    by (rule sum_list_lower) simp
  then show "py_min xs \<le> mean xs"
    using n by (simp add: py_min_Min [OF assms] mean_def pos_le_divide_eq mult.commute)
  have "sum_list xs \<le> of_nat (length xs) * Max (set xs)"
    by (rule sum_list_upper) simp
  then show "mean xs \<le> py_max xs"
    using n by (simp add: py_max_Max [OF assms] mean_def pos_divide_le_eq mult.commute)
qed

lemma sorted_nth_le_max:
  assumes "i < length xs"
  shows "sort xs ! i \<le> py_max xs"
proof -
  have ne: "xs \<noteq> []" using assms by auto
  have "sort xs ! i \<in> set (sort xs)" using assms by (intro nth_mem) simp
  then have "sort xs ! i \<in> set xs" by simp
  then show ?thesis by (simp add: py_max_Max [OF ne])
qed

lemma generate_report_latencies:
  assumes "response_times (metrics r) \<noteq> []"
  shows "\<exists>rep. generate_report r = Inr (ReportDict rep) \<and>
           average_ms rep = py_round2 (mean (response_times (metrics r))) \<and>
           minimum_ms rep = py_round2 (py_min (response_times (metrics r))) \<and>
           maximum_ms rep = py_round2 (py_max (response_times (metrics r))) \<and>
           p50_ms rep = py_round2 (spec_nearest_rank (1 / 2) (response_times (metrics r))) \<and>
           p95_ms rep = py_round2 (spec_nearest_rank (95 / 100) (response_times (metrics r))) \<and>
           p99_ms rep = py_round2 (spec_nearest_rank (99 / 100) (response_times (metrics r)))"
proof -
  let ?ts = "response_times (metrics r)"
  have ne: "sort ?ts \<noteq> []" using assms by (metis length_sort length_0_conv)
  have p50: "percentile (sort ?ts) (1 / 2) = Inr (spec_nearest_rank (1 / 2) ?ts)"
    using percentile_index(2) [OF ne, of "1 / 2"]
    by (simp add: spec_nearest_rank_def mult.commute)
  have p95: "percentile (sort ?ts) (95 / 100) = Inr (spec_nearest_rank (95 / 100) ?ts)"
    using percentile_index(2) [OF ne, of "95 / 100"]
    by (simp add: spec_nearest_rank_def mult.commute)
  have p99: "percentile (sort ?ts) (99 / 100) = Inr (spec_nearest_rank (99 / 100) ?ts)"
    using percentile_index(2) [OF ne, of "99 / 100"]
    by (simp add: spec_nearest_rank_def mult.commute)
  show ?thesis
    using assms p50 p95 p99 by (simp add: generate_report_def Let_def)
qed

text \<open>
  C3. A report generated from at least one recorded latency is a report, not the
  error entry, and its percentile fields are the nearest-rank percentiles
  \<open>sorted[floor(p * n)]\<close> for \<open>p\<close> = 0.50, 0.95 and 0.99, rounded to two decimals as
  every latency field of the report is. Consequently
  \<open>p50_ms \<le> p95_ms \<le> p99_ms \<le> maximum_ms\<close> and \<open>minimum_ms \<le> average_ms \<le> maximum_ms\<close>.
\<close>

theorem report_percentiles_nearest_rank:
  assumes "response_times (metrics r) \<noteq> []"
  shows "\<exists>rep. generate_report r = Inr (ReportDict rep) \<and>
           p50_ms rep = py_round2 (spec_nearest_rank (1 / 2) (response_times (metrics r))) \<and>
           p95_ms rep = py_round2 (spec_nearest_rank (95 / 100) (response_times (metrics r))) \<and>
           p99_ms rep = py_round2 (spec_nearest_rank (99 / 100) (response_times (metrics r))) \<and>
           p50_ms rep \<le> p95_ms rep \<and> p95_ms rep \<le> p99_ms rep \<and> p99_ms rep \<le> maximum_ms rep \<and>
           minimum_ms rep \<le> average_ms rep \<and> average_ms rep \<le> maximum_ms rep"
proof -
  let ?ts = "response_times (metrics r)"
  let ?n = "length ?ts"
  obtain rep where rep: "generate_report r = Inr (ReportDict rep)"
    and avg: "average_ms rep = py_round2 (mean ?ts)"
    and mn: "minimum_ms rep = py_round2 (py_min ?ts)"
    and mx: "maximum_ms rep = py_round2 (py_max ?ts)"
    and p50: "p50_ms rep = py_round2 (spec_nearest_rank (1 / 2) ?ts)"
    and p95: "p95_ms rep = py_round2 (spec_nearest_rank (95 / 100) ?ts)"
    and p99: "p99_ms rep = py_round2 (spec_nearest_rank (99 / 100) ?ts)"
    using generate_report_latencies [OF assms] by blast
  have i99: "nat \<lfloor>(99 / 100 :: rat) * of_nat ?n\<rfloor> < ?n"
    using percentile_index(1) [OF assms, of "99 / 100"] by (simp add: mult.commute)
  have r1: "nat \<lfloor>(1 / 2 :: rat) * of_nat ?n\<rfloor> \<le> nat \<lfloor>(95 / 100 :: rat) * of_nat ?n\<rfloor>"
    using percentile_rank_mono [of "1 / 2" "95 / 100" ?n] by (simp add: mult.commute)
  have r2: "nat \<lfloor>(95 / 100 :: rat) * of_nat ?n\<rfloor> \<le> nat \<lfloor>(99 / 100 :: rat) * of_nat ?n\<rfloor>"
    using percentile_rank_mono [of "95 / 100" "99 / 100" ?n] by (simp add: mult.commute)
  have srt: "sorted (sort ?ts)" by simp
  have a: "spec_nearest_rank (1 / 2) ?ts \<le> spec_nearest_rank (95 / 100) ?ts"
    unfolding spec_nearest_rank_def
    using r1 r2 i99 by (intro sorted_nth_mono [OF srt]) simp_all
  have b: "spec_nearest_rank (95 / 100) ?ts \<le> spec_nearest_rank (99 / 100) ?ts"
    unfolding spec_nearest_rank_def
    using r2 i99 by (intro sorted_nth_mono [OF srt]) simp_all
  have c: "spec_nearest_rank (99 / 100) ?ts \<le> py_max ?ts"
    unfolding spec_nearest_rank_def by (rule sorted_nth_le_max [OF i99])
  show ?thesis
    using rep p50 p95 p99 avg mn mx
      py_round2_mono [OF a] py_round2_mono [OF b] py_round2_mono [OF c]
      py_round2_mono [OF mean_bounds(1) [OF assms]] py_round2_mono [OF mean_bounds(2) [OF assms]]
    by simp
qed

theorem report_percentiles_nearest_rank_witness:
  "response_times (metrics ((LoadRunner (example_config ''GET''))
      \<lparr>metrics := TestMetrics\<lparr>response_times := [30, 10, 20, 40]\<rparr>\<rparr>)) \<noteq> [] \<and>
   (\<exists>rep. generate_report ((LoadRunner (example_config ''GET''))
              \<lparr>metrics := TestMetrics\<lparr>response_times := [30, 10, 20, 40]\<rparr>\<rparr>) = Inr (ReportDict rep) \<and>
          p50_ms rep = 30 \<and> p95_ms rep = 40 \<and> p99_ms rep = 40 \<and>
          minimum_ms rep = 10 \<and> average_ms rep = 25 \<and> maximum_ms rep = 40)"
proof -
  have ne: "response_times (metrics ((LoadRunner (example_config ''GET''))
      \<lparr>metrics := TestMetrics\<lparr>response_times := [30, 10, 20, 40]\<rparr>\<rparr>)) \<noteq> []"
    by simp
  from report_percentiles_nearest_rank [OF ne] ne show ?thesis
    by (simp add: example_defs runner_defs generate_report_def percentile_def py_index_def
          py_int_def py_round2_def round_half_even_def mean_def spec_nearest_rank_def)
qed


section \<open>Admission\<close>

lemma str_of_int_5: "str_of_int 5 = ''5''"
  by (simp add: str_of_int_def str_of_nat.simps digit_char_def)

text \<open>
  C2. When the registry tracks five executions or more, \<open>start_test\<close> returns the
  capacity rejection (\<open>success\<close> false, the maximum-concurrent-tests message) and the
  registry it leaves is the registry it found: no executor is created or entered.
\<close>

theorem start_test_rejects_at_capacity:
  assumes "max_concurrent_tests mgr = 5" and "5 \<le> length (active_tests mgr)"
  shows "start_test w uuid tc mgr =
           (Some (Inr (Failure ''Maximum concurrent tests (5) reached'' None None)), mgr) \<and>
         \<not> success (Failure ''Maximum concurrent tests (5) reached'' None None)"
  using assms by (simp add: start_test_def str_of_int_5)

theorem start_test_rejects_at_capacity_witness:
  "max_concurrent_tests (started [''e1'', ''e2'', ''e3'', ''e4'', ''e5'']) = 5 \<and>
   map fst (active_tests (started [''e1'', ''e2'', ''e3'', ''e4'', ''e5''])) =
     [''e1'', ''e2'', ''e3'', ''e4'', ''e5''] \<and>
   start_test (example_world example_env) ''e6'' example_test_config
       (started [''e1'', ''e2'', ''e3'', ''e4'', ''e5'']) =
     (Some (Inr (Failure ''Maximum concurrent tests (5) reached'' None None)),
      started [''e1'', ''e2'', ''e3'', ''e4'', ''e5''])"
proof -
  have m: "max_concurrent_tests (started [''e1'', ''e2'', ''e3'', ''e4'', ''e5'']) = 5"
    by (simp add: example_world_defs example_defs executor_defs runner_defs)
  have k: "map fst (active_tests (started [''e1'', ''e2'', ''e3'', ''e4'', ''e5''])) =
     [''e1'', ''e2'', ''e3'', ''e4'', ''e5'']"
    by (simp add: example_world_defs example_defs executor_defs runner_defs)
  from arg_cong [OF k, of length]
  have l: "5 \<le> length (active_tests (started [''e1'', ''e2'', ''e3'', ''e4'', ''e5'']))"
    by simp
  from start_test_rejects_at_capacity [OF m l, of "example_world example_env" "''e6''" example_test_config]
    m k show ?thesis by simp
qed


section \<open>Release of the registry slot\<close>

lemma delete_update_fresh:
  assumes "k \<notin> fst ` set xs"
  shows "AList.delete k (AList.update k v xs) = xs"
  using assms by (induction xs) auto

lemma start_test_releases_on_result:
  assumes "int (length (active_tests mgr)) < max_concurrent_tests mgr"
    and "uuid \<notin> fst ` set (active_tests mgr)"
    and "fst (start_test w uuid tc mgr) = Some (Inr res)"
  shows "snd (start_test w uuid tc mgr) = mgr"
proof -
  obtain out ex' where ex: "execute_test w tc (TestExecutor tc uuid) = (out, ex')"
    by (cases "execute_test w tc (TestExecutor tc uuid)")
  have mem: "uuid \<in> fst ` set (AList.update uuid (TestExecutor tc uuid) (active_tests mgr))"
    by (simp add: update_conv' flip: dom_map_of_conv_image_fst)
  show ?thesis
    using assms ex mem
    by (auto simp: start_test_def Let_def cleanup_def delete_update_fresh
             split: option.splits sum.splits if_splits)
qed

lemma start_test_keeps_handle_on_raise:
  assumes "fst (start_test w uuid tc mgr) = Some (Inl e)"
  shows "\<not> is_Exception e \<and> uuid \<in> fst ` set (active_tests (snd (start_test w uuid tc mgr)))"
proof -
  obtain out ex' where ex: "execute_test w tc (TestExecutor tc uuid) = (out, ex')"
    by (cases "execute_test w tc (TestExecutor tc uuid)")
  have mem: "uuid \<in> fst ` set (AList.update uuid ex'
               (AList.update uuid (TestExecutor tc uuid) (active_tests mgr)))"
    by (simp add: update_conv' flip: dom_map_of_conv_image_fst)
  show ?thesis
    using assms ex mem
    by (auto simp: start_test_def Let_def split: option.splits sum.splits if_splits)
qed

text \<open>
  C4, evaluated where the code departs from the claim. \<open>start_test\<close> removes the handle
  after a result and in its \<open>except Exception\<close> clause, and nowhere else. When the
  caller is cancelled while the run awaits its virtual users, \<open>CancelledError\<close> passes
  through \<open>run_test\<close>, \<open>execute_test\<close> and \<open>start_test\<close> (none of their \<open>except Exception\<close>
  clauses catches it) and the handle stays in the registry, marked as not running,
  until the manager's \<open>abort_test\<close> is called for that id. An
  execution that ends with a success result, or with a failure result (here the k6
  process timing out), leaves the registry empty. In general (the two lemmas above),
  when \<open>start_test\<close> returns a result the registry is as it was before the call, and
  when it raises, the handle is still in the registry.
\<close>

theorem cancelled_start_test_keeps_handle:
  "start_test (example_world (example_env\<lparr>schedule := [], gather_raises := Some CancelledError\<rparr>))
       ''e1'' example_test_config TestExecutionManager =
     (Some (Inl CancelledError),
      \<lparr>active_tests = [(''e1'', TestExecutor example_test_config ''e1'')],
       max_concurrent_tests = 5\<rparr>) \<and>
   get_active_tests (snd (start_test
       (example_world (example_env\<lparr>schedule := [], gather_raises := Some CancelledError\<rparr>))
       ''e1'' example_test_config TestExecutionManager)) = [(''e1'', ''completed'')] \<and>
   active_tests (snd (start_test (example_world example_env) ''e1'' example_test_config
       TestExecutionManager)) = [] \<and>
   active_tests (snd (start_test (example_world example_env) ''e1''
       (example_test_config\<lparr>tc_concurrent_users := Some 2000\<rparr>) TestExecutionManager)) = [] \<and>
   fst (start_test (example_world example_env) ''e1''
       (example_test_config\<lparr>tc_concurrent_users := Some 2000\<rparr>) TestExecutionManager) =
     Some (Inr (Failure ''Test execution timed out'' (Some ''e1'') None))"
  by (simp add: example_world_defs example_defs executor_defs runner_defs get_active_tests_def
        percentile_def py_index_def py_int_def str_of_nat.simps)


section \<open>Timeout of the external process\<close>

text \<open>
  C5, as the claim states it, fails where it says that the supervisor first sends a
  graceful termination signal: when \<open>communicate\<close> times out, \<open>_run_k6_test\<close> calls
  \<open>kill()\<close> at once. Here the process never exits by itself and the timeout is five
  seconds; the only signal the process receives is \<open>SIGKILL\<close>.
\<close>

theorem k6_timeout_sends_no_sigterm:
  "run_k6_test example_os (example_test_config\<lparr>tc_concurrent_users := Some 2000, tc_timeout := Some 5\<rparr>)
       (TestExecutor (example_test_config\<lparr>tc_concurrent_users := Some 2000, tc_timeout := Some 5\<rparr>) ''e1'') =
     (Some (Inr (Failure ''Test execution timed out'' (Some ''e1'') None)),
      (TestExecutor (example_test_config\<lparr>tc_concurrent_users := Some 2000, tc_timeout := Some 5\<rparr>) ''e1'')
        \<lparr>process := Some (hung_process\<lparr>status := Exited (- 9), signals := [SIGKILL]\<rparr>)\<rparr>) \<and>
   SIGTERM \<notin> set (signals (hung_process\<lparr>status := Exited (- 9), signals := [SIGKILL]\<rparr>))"
  by (simp add: example_world_defs example_defs executor_defs runner_defs)

text \<open>
  C5, amended. When the process that \<open>Popen\<close> started does not exit within the
  effective timeout (the configured one, or 3600 seconds), the supervisor sends it
  \<open>SIGKILL\<close> at once, with no termination signal and no grace period before, and waits
  for it to exit. The result is the failure with the reason
  \<open>Test execution timed out\<close>, and the process has exited afterwards.
\<close>

theorem k6_timeout_kills_process:
  assumes "get_k6_script_path (get_or (tc_load_profile_type tc) ''steady_state'') = Some path"
    and "path \<in> set (files sys)"
    and "tc_target_url tc = Some url"
    and "\<forall>cmd env. popen sys cmd env = Inr p"
    and "status p = Alive"
    and "\<forall>d. run_time p = Some d \<longrightarrow> of_int (get_or (tc_timeout tc) 3600) < d"
  shows "run_k6_test sys tc ex =
           (Some (Inr (Failure ''Test execution timed out'' (Some (execution_id ex)) None)),
            ex\<lparr>process := Some (p\<lparr>signals := signals p @ [SIGKILL], status := Exited (- 9)\<rparr>)\<rparr>)"
proof -
  have env: "\<exists>vars. prepare_k6_env sys tc = Inr vars"
    using assms(3) by (simp add: prepare_k6_env_def Let_def)
  have com: "communicate (of_int (get_or (tc_timeout tc) 3600)) p = Inl TimeoutExpired"
    using assms(5,6) by (auto simp: communicate_def split: option.splits)
  have w: "wait (kill p) = Some (p\<lparr>signals := signals p @ [SIGKILL], status := Exited (- 9)\<rparr>)"
    using assms(5) by (simp add: wait_def kill_def send_signal_def exits_within_def)
  from env obtain vars where vars: "prepare_k6_env sys tc = Inr vars" by blast
  show ?thesis
    using assms(1,2,4) vars com w
    by (simp add: run_k6_test_def Let_def)
qed

theorem k6_timeout_kills_process_witness:
  "run_k6_test example_os (example_test_config\<lparr>tc_timeout := Some 5\<rparr>)
       (TestExecutor (example_test_config\<lparr>tc_timeout := Some 5\<rparr>) ''e1'') =
     (Some (Inr (Failure ''Test execution timed out'' (Some ''e1'') None)),
      (TestExecutor (example_test_config\<lparr>tc_timeout := Some 5\<rparr>) ''e1'')
        \<lparr>process := Some (hung_process\<lparr>signals := [SIGKILL], status := Exited (- 9)\<rparr>)\<rparr>) \<and>
   status hung_process = Alive \<and> run_time hung_process = None \<and>
   ''runner/k6-scripts/basic-load-test.js'' \<in> set (files example_os)"
proof -
  have a1: "get_k6_script_path (get_or (tc_load_profile_type (example_test_config\<lparr>tc_timeout := Some 5\<rparr>))
              ''steady_state'') = Some ''runner/k6-scripts/basic-load-test.js''"
    by (simp add: example_world_defs executor_defs)
  have a2: "''runner/k6-scripts/basic-load-test.js'' \<in> set (files example_os)"
    by (simp add: example_world_defs)
  have a3: "tc_target_url (example_test_config\<lparr>tc_timeout := Some 5\<rparr>) = Some ''http://x/health''"
    by (simp add: example_world_defs)
  have a4: "\<forall>cmd env. popen example_os cmd env = Inr hung_process"
    by (simp add: example_world_defs)
  have a5: "status hung_process = Alive" by (simp add: example_world_defs)
  have a6: "\<forall>d. run_time hung_process = Some d \<longrightarrow>
              of_int (get_or (tc_timeout (example_test_config\<lparr>tc_timeout := Some 5\<rparr>)) 3600) < d"
    by (simp add: example_world_defs)
  from k6_timeout_kills_process [OF a1 a2 a3 a4 a5 a6,
         of "TestExecutor (example_test_config\<lparr>tc_timeout := Some 5\<rparr>) ''e1''"] a2 a5
  show ?thesis by (simp add: example_world_defs TestExecutor_def)
qed


section \<open>Abort of an internal run\<close>

text \<open>
  No turn of a virtual user's loop changes the runner's flag, so the flag is set for
  as long as \<open>run_test\<close> has not returned: only something outside the loops could
  clear it during a run.
\<close>

lemma make_request_running:
  "running (snd (snd (make_request clk nw r))) = running r"
  by (simp add: make_request_def Let_def split: sum.splits reply.splits exn.splits)

lemma user_step_running: "running (snd (user_step it t r)) = running r"
proof (cases t)
  case (Looping end_t)
  obtain d out r' where mr: "make_request (clock it) (net it) r = (d, out, r')"
    by (cases "make_request (clock it) (net it) r") auto
  from make_request_running [of "clock it" "net it" r] mr have "running r' = running r" by simp
  with Looping mr show ?thesis by (cases out) simp_all
qed simp_all

lemma run_event_running: "running (snd (run_event ev (tasks, r))) = running r"
proof -
  obtain uid it where ev: "ev = (uid, it)" by (cases ev)
  obtain t' r' where us: "user_step it (tasks ! uid) r = (t', r')"
    by (cases "user_step it (tasks ! uid) r")
  from user_step_running [of it "tasks ! uid" r] us have "running r' = running r" by simp
  with ev us show ?thesis by simp
qed

lemma run_events_running: "running (snd (run_events evs (tasks, r))) = running r"
proof (induction evs arbitrary: tasks r)
  case Nil
  show ?case by (simp add: run_events_def)
next
  case (Cons ev evs)
  obtain tasks' r' where re: "run_event ev (tasks, r) = (tasks', r')"
    by (cases "run_event ev (tasks, r)")
  from run_event_running [of ev tasks r] re have "running r' = running r" by simp
  with Cons.IH [of tasks' r'] re show ?case by (simp add: run_events_def)
qed

lemma run_test_pending_running:
  assumes "fst (run_test env r) = None"
  shows "running (snd (run_test env r))"
proof -
  obtain tasks r2 where ev:
      "run_events (schedule env) (create_tasks env (start_run env r), start_run env r) = (tasks, r2)"
    by (cases "run_events (schedule env) (create_tasks env (start_run env r), start_run env r)")
  from run_events_running [of "schedule env" "create_tasks env (start_run env r)" "start_run env r"] ev
  have "running r2" by (simp add: start_run_def)
  with assms ev show ?thesis
    by (simp add: run_test_def Let_def split: option.splits if_splits)
qed

text \<open>
  The executor of a run that is under way on the internal backend is running and has
  no process: \<open>abort_test\<close> answers with a failure and leaves the executor as it is.
\<close>

lemma abort_test_without_process:
  assumes "is_running ex" and "process ex = None"
  shows "abort_test ex = (Some (Failure ''No process to abort'' None None), ex)"
  using assms by (simp add: abort_test_def)

text \<open>
  C6, evaluated where the code departs from the claim. The claim is that invoking abort
  on a running internal-backend execution makes every virtual-user loop stop promptly.
  The loops do poll the runner's \<open>running\<close> flag on every turn, but \<open>abort_test\<close>, whose
  docstring is \<open>Abort the currently running test\<close>, never clears it: the executor of a
  Python run has no process and keeps no reference to the runner, so \<open>abort_test\<close>
  returns the failure \<open>No process to abort\<close> and changes nothing, and the manager then
  drops the handle of a run that goes on. Here one request had been recorded when the
  abort came; the run has not returned, the flag is still set, and the next turn of a
  virtual user issues a second request.
\<close>

theorem abort_leaves_python_run_going:
  "abort_test ((TestExecutor example_test_config ''e1'')\<lparr>is_running := True\<rparr>) =
     (Some (Failure ''No process to abort'' None None),
      (TestExecutor example_test_config ''e1'')\<lparr>is_running := True\<rparr>) \<and>
   manager_abort_test ''e1'' (started [''e1'']) =
     (Some (Failure ''No process to abort'' None None), TestExecutionManager) \<and>
   fst (run_test (example_env\<lparr>schedule := [(0, turn 0 (Response 200 ''ok''))]\<rparr>)
          (LoadRunner (example_config ''GET''))) = None \<and>
   running (snd (run_test (example_env\<lparr>schedule := [(0, turn 0 (Response 200 ''ok''))]\<rparr>)
          (LoadRunner (example_config ''GET'')))) \<and>
   total_requests (metrics (snd (run_test (example_env\<lparr>schedule := [(0, turn 0 (Response 200 ''ok''))]\<rparr>)
          (LoadRunner (example_config ''GET''))))) = 1 \<and>
   total_requests (metrics (snd (user_step (turn 1 (Response 200 ''ok'')) (Looping 2)
      (snd (run_test (example_env\<lparr>schedule := [(0, turn 0 (Response 200 ''ok''))]\<rparr>)
          (LoadRunner (example_config ''GET''))))))) = 2"
  by (simp add: example_world_defs example_defs executor_defs runner_defs)


section \<open>Failures during a run\<close>






















end
